theory Spec2Isabelle
  imports Main "HOL-Library.AList"
begin

section \<open>JavaScript values\<close>

text \<open>
  The form data, the schema documents and the imported payloads are JSON-like JavaScript
  values. Numbers are restricted to integers; functions, symbols and cyclic structures do
  not occur. An object is the ordered list of its own properties: a read finds the first
  binding of a key, a write overwrites the binding in place or appends a new one.
  Properties inherited from \<^verbatim>\<open>Object.prototype\<close> are outside the model.
\<close>

datatype jsval =
    JUndefined
  | JNull
  | JBool bool
  | JNum int
  | JStr string
  | JArr "jsval list"
  | JObj "(string \<times> jsval) list"

type_synonym obj = "(string \<times> jsval) list"

text \<open>ToBoolean: what \<^verbatim>\<open>if (v)\<close>, \<^verbatim>\<open>!v\<close> and \<^verbatim>\<open>a || b\<close> test.\<close>

fun truthy :: "jsval \<Rightarrow> bool" where
  "truthy JUndefined = False"
| "truthy JNull = False"
| "truthy (JBool b) = b"
| "truthy (JNum n) = (n \<noteq> 0)"
| "truthy (JStr s) = (s \<noteq> [])"
| "truthy (JArr xs) = True"
| "truthy (JObj ps) = True"

text \<open>\<^verbatim>\<open>o[k]\<close> on an object: the stored value, or \<^verbatim>\<open>undefined\<close>.\<close>

definition obj_get :: "obj \<Rightarrow> string \<Rightarrow> jsval" where
  "obj_get ps k = (case map_of ps k of None \<Rightarrow> JUndefined | Some v \<Rightarrow> v)"

text \<open>\<^verbatim>\<open>o[k] = v\<close> on an object.\<close>

definition obj_set :: "obj \<Rightarrow> string \<Rightarrow> jsval \<Rightarrow> obj" where
  "obj_set ps k v = AList.update k v ps"

text \<open>
  \<^verbatim>\<open>Array.prototype.splice(start, deleteCount)\<close> without inserted items, as the array it
  leaves behind: a negative start counts from the end, the start is clamped to the
  length and the delete count to what is left.
\<close>

definition splice :: "'a list \<Rightarrow> int \<Rightarrow> int \<Rightarrow> 'a list" where
  "splice xs start deleteCount =
     (let len = int (length xs);
          actualStart = (if start < 0 then max (len + start) 0 else min start len);
          actualDeleteCount = min (max deleteCount 0) (len - actualStart)
      in take (nat actualStart) xs @ drop (nat (actualStart + actualDeleteCount)) xs)"

text \<open>\<^verbatim>\<open>typeof v\<close> and \<^verbatim>\<open>a || b\<close>.\<close>

fun typeof :: "jsval \<Rightarrow> string" where
  "typeof JUndefined = ''undefined''"
| "typeof JNull = ''object''"
| "typeof (JBool b) = ''boolean''"
| "typeof (JNum n) = ''number''"
| "typeof (JStr s) = ''string''"
| "typeof (JArr xs) = ''object''"
| "typeof (JObj ps) = ''object''"

definition js_or :: "jsval \<Rightarrow> jsval \<Rightarrow> jsval" where
  "js_or a b = (if truthy a then a else b)"

text \<open>Decimal digits of a number, as an array index is written as a property key.\<close>

fun show_nat :: "nat \<Rightarrow> string" where
  "show_nat n =
     (if n < 10 then [''0123456789'' ! n]
      else show_nat (n div 10) @ [''0123456789'' ! (n mod 10)])"

declare show_nat.simps [simp del]

definition is_digit :: "char \<Rightarrow> bool" where
  "is_digit c = (c \<in> set ''0123456789'')"

definition nat_of_digits :: "string \<Rightarrow> nat" where
  "nat_of_digits ds =
     foldl (\<lambda>n c. 10 * n + length (takeWhile (\<lambda>d. d \<noteq> c) ''0123456789'')) 0 ds"

text \<open>A property key that is an array index: canonical decimal digits.\<close>

definition index_of_key :: "string \<Rightarrow> nat option" where
  "index_of_key k =
     (if k \<noteq> [] \<and> list_all is_digit k \<and> (k = ''0'' \<or> hd k \<noteq> CHR ''0'')
      then Some (nat_of_digits k) else None)"

text \<open>
  \<^verbatim>\<open>v?.[k]\<close>: \<^verbatim>\<open>undefined\<close> on \<^verbatim>\<open>null\<close> and \<^verbatim>\<open>undefined\<close>, the own property otherwise
  (an array and a string have their indices and their length).
\<close>

fun opt_prop :: "jsval \<Rightarrow> string \<Rightarrow> jsval" where
  "opt_prop (JObj ps) k = obj_get ps k"
| "opt_prop (JArr xs) k =
     (if k = ''length'' then JNum (int (length xs))
      else case index_of_key k of
             Some i \<Rightarrow> (if i < length xs then xs ! i else JUndefined)
           | None \<Rightarrow> JUndefined)"
| "opt_prop (JStr s) k =
     (if k = ''length'' then JNum (int (length s))
      else case index_of_key k of
             Some i \<Rightarrow> (if i < length s then JStr [s ! i] else JUndefined)
           | None \<Rightarrow> JUndefined)"
| "opt_prop v k = JUndefined"

text \<open>
  \<^verbatim>\<open>{ ...v }\<close>: the own enumerable properties of a value. An array and a string spread
  into index keys; \<^verbatim>\<open>null\<close>, \<^verbatim>\<open>undefined\<close>, numbers and booleans have none.
\<close>

fun spread :: "jsval \<Rightarrow> obj" where
  "spread (JObj ps) = ps"
| "spread (JArr xs) = map (\<lambda>i. (show_nat i, xs ! i)) [0..<length xs]"
| "spread (JStr s) = map (\<lambda>i. (show_nat i, JStr [s ! i])) [0..<length s]"
| "spread v = []"


section \<open>Strings\<close>

text \<open>
  A string is a list of characters; the case conversions act on the ASCII letters, which
  is what schema and model names are made of.
\<close>

definition startsWith :: "string \<Rightarrow> string \<Rightarrow> bool" where
  "startsWith s p = (take (length p) s = p)"

text \<open>\<^verbatim>\<open>s.replace(pat, '')\<close> with a string pattern: the first occurrence is removed.\<close>

fun remove_first :: "string \<Rightarrow> string \<Rightarrow> string" where
  "remove_first pat [] = []"
| "remove_first pat (c # cs) =
     (if startsWith (c # cs) pat then drop (length pat) (c # cs)
      else c # remove_first pat cs)"

definition upper_letters :: string where
  "upper_letters = ''ABCDEFGHIJKLMNOPQRSTUVWXYZ''"

definition lower_letters :: string where
  "lower_letters = ''abcdefghijklmnopqrstuvwxyz''"

definition is_upper :: "char \<Rightarrow> bool" where
  "is_upper c = (c \<in> set upper_letters)"

definition is_lower :: "char \<Rightarrow> bool" where
  "is_lower c = (c \<in> set lower_letters)"

definition to_lower :: "char \<Rightarrow> char" where
  "to_lower c =
     (case map_of (zip upper_letters lower_letters) c of Some l \<Rightarrow> l | None \<Rightarrow> c)"

definition to_upper :: "char \<Rightarrow> char" where
  "to_upper c =
     (case map_of (zip lower_letters upper_letters) c of Some u \<Rightarrow> u | None \<Rightarrow> c)"

definition toLowerCase :: "string \<Rightarrow> string" where
  "toLowerCase s = map to_lower s"

text \<open>\<^verbatim>\<open>s.split('/').pop()\<close>: what follows the last slash.\<close>

definition last_segment :: "string \<Rightarrow> string" where
  "last_segment s = rev (takeWhile (\<lambda>c. c \<noteq> CHR ''/'') (rev s))"

section \<open>The platform\<close>

text \<open>
  What the browser provides and the repository only calls: the JSON codec, whether
  \<^verbatim>\<open>Storage\<close> exists, and whether \<^verbatim>\<open>localStorage.setItem\<close> accepts a key and a text
  (it throws when the quota is exceeded). \<^verbatim>\<open>JSON.parse\<close> returns \<open>None\<close> where it throws
  a \<^verbatim>\<open>SyntaxError\<close>; \<^verbatim>\<open>JSON.stringify\<close> takes the value and the indentation.
\<close>

record platform =
  JSON_parse :: "string \<Rightarrow> jsval option"
  JSON_stringify :: "jsval \<Rightarrow> nat \<Rightarrow> string"
  has_Storage :: bool
  setItem_ok :: "string \<Rightarrow> string \<Rightarrow> bool"

datatype error = Error string | TypeError

section \<open>DataManager (data-manager.js)\<close>

text \<open>
  \<^verbatim>\<open>formData\<close> maps a schema name to that schema's tree. Initialisation, the updates and
  the imports all store a plain object there, so a tree is an \<open>obj\<close>, which is truthy
  whenever it is present. \<^verbatim>\<open>localStorage\<close> is the browser's store, written by
  \<^verbatim>\<open>saveToStorage\<close>.
\<close>

record dm_state =
  formData :: "(string \<times> obj) list"
  autoSave :: bool
  storageKey :: string
  localStorage :: "(string \<times> string) list"

definition formData_val :: "(string \<times> obj) list \<Rightarrow> jsval" where
  "formData_val fd = JObj (map (\<lambda>(k, t). (k, JObj t)) fd)"

text \<open>
  \<^verbatim>\<open>saveToStorage\<close>: mirrors the whole map to local storage when auto-save is on; a
  failure is caught and logged, never raised.
\<close>

definition saveToStorage :: "platform \<Rightarrow> dm_state \<Rightarrow> dm_state" where
  "saveToStorage P st =
     (if autoSave st \<and> has_Storage P then
        (let text = JSON_stringify P (formData_val (formData st)) 0
         in if setItem_ok P (storageKey st) text
            then st\<lparr>localStorage := AList.update (storageKey st) text (localStorage st)\<rparr>
            else st)
      else st)"

text \<open>\<^verbatim>\<open>if (!this.formData[currentSchema]) this.formData[currentSchema] = {}\<close>\<close>

definition ensure_schema :: "(string \<times> obj) list \<Rightarrow> string \<Rightarrow> (string \<times> obj) list" where
  "ensure_schema fd currentSchema =
     (case map_of fd currentSchema of
        None \<Rightarrow> AList.update currentSchema [] fd
      | Some t \<Rightarrow> fd)"

text \<open>\<^verbatim>\<open>getFormDataForSchema\<close>: \<^verbatim>\<open>this.formData[currentSchema] || {}\<close>\<close>

definition getFormDataForSchema :: "dm_state \<Rightarrow> string \<Rightarrow> obj" where
  "getFormDataForSchema st currentSchema =
     (case map_of (formData st) currentSchema of None \<Rightarrow> [] | Some t \<Rightarrow> t)"


text \<open>
  \<^verbatim>\<open>removeArrayItem\<close>: only when \<^verbatim>\<open>this.formData[currentSchema]?.[fieldName]\<close> is truthy,
  \<^verbatim>\<open>splice(itemIndex, 1)\<close> on it, then save. A truthy value that is not an array has no
  \<^verbatim>\<open>splice\<close>: the call throws.
\<close>

definition removeArrayItem ::
  "platform \<Rightarrow> dm_state \<Rightarrow> string \<Rightarrow> string \<Rightarrow> int \<Rightarrow> (error + unit) \<times> dm_state" where
  "removeArrayItem P st currentSchema fieldName itemIndex =
     (case map_of (formData st) currentSchema of
        None \<Rightarrow> (Inr (), st)
      | Some tree \<Rightarrow>
          if truthy (obj_get tree fieldName) then
            (case obj_get tree fieldName of
               JArr xs \<Rightarrow>
                 (Inr (),
                  saveToStorage P
                    (st\<lparr>formData := AList.update currentSchema
                           (obj_set tree fieldName (JArr (splice xs itemIndex 1)))
                           (formData st)\<rparr>))
             | _ \<Rightarrow> (Inl TypeError, st))
          else (Inr (), st))"


text \<open>\<^verbatim>\<open>updateFormData\<close>: \<^verbatim>\<open>this.formData[currentSchema][fieldName] = value\<close>.\<close>

definition updateFormData :: "platform \<Rightarrow> dm_state \<Rightarrow> string \<Rightarrow> string \<Rightarrow> jsval \<Rightarrow> dm_state" where
  "updateFormData P st currentSchema fieldName v =
     (let fd1 = ensure_schema (formData st) currentSchema;
          st1 = st\<lparr>formData := fd1\<rparr>;
          tree = getFormDataForSchema st1 currentSchema
      in saveToStorage P
           (st1\<lparr>formData := AList.update currentSchema (obj_set tree fieldName v) fd1\<rparr>))"

text \<open>
  \<^verbatim>\<open>initializeUnionFormData\<close>: the field receives a copy of the schema's default values
  unless it already holds an object. Reading \<^verbatim>\<open>schema.default_values\<close> throws on a
  \<^verbatim>\<open>null\<close> or \<^verbatim>\<open>undefined\<close> schema, after the schema's tree was created.
\<close>

definition initializeUnionFormData ::
  "platform \<Rightarrow> dm_state \<Rightarrow> string \<Rightarrow> string \<Rightarrow> jsval \<Rightarrow> (error + unit) \<times> dm_state" where
  "initializeUnionFormData P st currentSchema fieldName schema =
     (let fd1 = ensure_schema (formData st) currentSchema;
          st1 = st\<lparr>formData := fd1\<rparr>;
          tree = getFormDataForSchema st1 currentSchema;
          v = obj_get tree fieldName
      in if \<not> truthy v \<or> typeof v \<noteq> ''object'' then
           (if schema = JUndefined \<or> schema = JNull then (Inl TypeError, st1)
            else
              (Inr (),
               saveToStorage P
                 (st1\<lparr>formData := AList.update currentSchema
                         (obj_set tree fieldName
                            (JObj (spread (js_or (opt_prop schema ''default_values'') (JObj [])))))
                         fd1\<rparr>)))
         else (Inr (), saveToStorage P st1))"


definition export_envelope :: "string \<Rightarrow> string \<Rightarrow> obj \<Rightarrow> jsval" where
  "export_envelope now currentSchema data =
     JObj [(''timestamp'', JStr now),
           (''workflow_name'', JStr currentSchema),
           (''form_data'', JObj data)]"






section \<open>ImprovedDynamicFormGenerator (improved-dynamic-form-generator.js)\<close>

text \<open>
  The schema document: its \<^verbatim>\<open>schemas\<close> and \<^verbatim>\<open>definitions\<close> maps, each possibly absent.
  \<^verbatim>\<open>m?.[name]\<close> on an absent map is \<^verbatim>\<open>undefined\<close>.
\<close>

record schema_doc =
  schemas :: "obj option"
  definitions :: "obj option"

definition map_get :: "obj option \<Rightarrow> string \<Rightarrow> jsval" where
  "map_get m name = (case m of None \<Rightarrow> JUndefined | Some ps \<Rightarrow> obj_get ps name)"

text \<open>\<^verbatim>\<open>str.replace(/([A-Z])/g, '_$1').toLowerCase().replace(/^_/, '')\<close>\<close>

definition camelToSnake :: "string \<Rightarrow> string" where
  "camelToSnake str =
     (let s1 = concat (map (\<lambda>c. if is_upper c then [CHR ''_'', c] else [c]) str);
          s2 = toLowerCase s1
      in case s2 of [] \<Rightarrow> [] | c # cs \<Rightarrow> (if c = CHR ''_'' then cs else c # cs))"

text \<open>\<^verbatim>\<open>str.replace(/_([a-z])/g, (match, letter) => letter.toUpperCase())\<close>\<close>

fun snakeToCamel :: "string \<Rightarrow> string" where
  "snakeToCamel (c # d # cs) =
     (if c = CHR ''_'' \<and> is_lower d then to_upper d # snakeToCamel cs
      else c # snakeToCamel (d # cs))"
| "snakeToCamel cs = cs"

text \<open>The name variations \<^verbatim>\<open>findInDefinitions\<close> tries, in its order.\<close>

definition variations :: "string \<Rightarrow> string list" where
  "variations defName =
     [defName,
      ''RootModel_'' @ defName,
      remove_first ''RootModel_'' defName,
      camelToSnake defName,
      snakeToCamel defName]"

text \<open>The loop over the variations: \<^verbatim>\<open>schemas\<close> first, then \<^verbatim>\<open>definitions\<close>.\<close>

fun find_variation :: "schema_doc \<Rightarrow> string list \<Rightarrow> jsval" where
  "find_variation doc [] = JNull"
| "find_variation doc (variation # rest) =
     (if truthy (map_get (schemas doc) variation) then map_get (schemas doc) variation
      else if truthy (map_get (definitions doc) variation)
        then map_get (definitions doc) variation
      else find_variation doc rest)"

definition findInDefinitions :: "schema_doc \<Rightarrow> string \<Rightarrow> jsval" where
  "findInDefinitions doc defName =
     (if truthy (map_get (definitions doc) defName) then map_get (definitions doc) defName
      else if truthy (map_get (schemas doc) defName) then map_get (schemas doc) defName
      else find_variation doc (variations defName))"

text \<open>
  \<^verbatim>\<open>ref.replace(/^#\/.*\//, '')\<close>: a leading \<^verbatim>\<open>#/\<close> up to the last slash of its line is
  removed (the dot of the pattern does not match a line terminator).
\<close>

definition strip_path :: "string \<Rightarrow> string" where
  "strip_path ref =
     (if startsWith ref ''#/'' then
        (let seg = takeWhile (\<lambda>c. c \<noteq> CHR 0x0A \<and> c \<noteq> CHR 0x0D) (drop 2 ref)
         in if CHR ''/'' \<in> set seg
            then drop (2 + (length seg - length (takeWhile (\<lambda>c. c \<noteq> CHR ''/'') (rev seg)))) ref
            else ref)
      else ref)"

text \<open>
  The generator's state: the schema document (\<^verbatim>\<open>null\<close> until a form is generated) and
  the reference cache.
\<close>

record generator =
  rawSchema :: "schema_doc option"
  referenceCache :: "(string \<times> jsval) list"

definition resolveReference :: "generator \<Rightarrow> string \<Rightarrow> (error + jsval) \<times> generator" where
  "resolveReference g ref =
     (case map_of (referenceCache g) ref of
        Some cached \<Rightarrow> (Inr cached, g)
      | None \<Rightarrow>
          (case rawSchema g of
             None \<Rightarrow> (Inl TypeError, g)
           | Some doc \<Rightarrow>
               (let resolvedSchema =
                      (if startsWith ref ''#/$defs/'' then
                         findInDefinitions doc (remove_first ''#/$defs/'' ref)
                       else if startsWith ref ''#/definitions/'' then
                         findInDefinitions doc (remove_first ''#/definitions/'' ref)
                       else if startsWith ref ''#/schemas/'' then
                         map_get (schemas doc) (remove_first ''#/schemas/'' ref)
                       else
                         (let refName = strip_path ref
                          in js_or (map_get (schemas doc) refName)
                               (findInDefinitions doc refName)))
                in if truthy resolvedSchema then
                     (Inr resolvedSchema,
                      g\<lparr>referenceCache := AList.update ref resolvedSchema (referenceCache g)\<rparr>)
                   else (Inr resolvedSchema, g))))"





section \<open>ArrayManager.fetchSchema (array-manager.js)\<close>





section \<open>DynamicWorkflowManager: union selection (llm-form-test.js)\<close>

text \<open>
  What \<^verbatim>\<open>generateUnionSelectField\<close> caches for a union field: the options (the value
  the card selects and the reference of its schema) and all schemas of the document.
\<close>

record union_option =
  option_value :: string
  schema_ref :: "string option"

record cached_union =
  unionOptions :: "union_option list"
  allSchemas :: obj

record workflow =
  currentSchema :: string
  dataManager :: "dm_state option"
  fieldCache :: "(string \<times> cached_union) list"
  schemaCache :: obj

text \<open>
  The first half of \<^verbatim>\<open>renderUnionFields\<close>: from the cached field data to the schema of
  the selected option, \<open>None\<close> at each of its early returns. It reads the caches only.
\<close>

definition selectedSchema :: "string \<Rightarrow> (string \<times> cached_union) list \<Rightarrow> obj \<Rightarrow> string \<Rightarrow> string
     \<Rightarrow> (jsval \<times> obj) option" where
  "selectedSchema schemaKey fc sc fieldName selectedValue =
     (case map_of fc (schemaKey @ ''_'' @ fieldName @ ''_union'') of
        None \<Rightarrow> None
      | Some cachedData \<Rightarrow>
          (case find (\<lambda>option. option_value option = selectedValue) (unionOptions cachedData) of
             None \<Rightarrow> None
           | Some selectedOption \<Rightarrow>
               (case schema_ref selectedOption of
                  None \<Rightarrow> None
                | Some schemaRef \<Rightarrow>
                    if schemaRef = [] then None
                    else
                      (let schemaName = last_segment schemaRef;
                           found =
                             js_or
                               (js_or (obj_get (allSchemas cachedData) schemaName)
                                  (opt_prop
                                     (opt_prop (obj_get (allSchemas cachedData) ''RootModel'')
                                        ''definitions'')
                                     schemaName))
                               (opt_prop
                                  (opt_prop
                                     (opt_prop (opt_prop (obj_get sc schemaKey) ''schemas'')
                                        ''RootModel'')
                                     ''definitions'')
                                  schemaName)
                       in if truthy found then Some (found, allSchemas cachedData) else None))))"

text \<open>The manager's \<^verbatim>\<open>updateFormData\<close> and \<^verbatim>\<open>initializeUnionFormData\<close> delegate.\<close>

definition wf_updateFormData :: "platform \<Rightarrow> workflow \<Rightarrow> string \<Rightarrow> jsval \<Rightarrow> workflow" where
  "wf_updateFormData P W fieldName v =
     (case dataManager W of
        None \<Rightarrow> W
      | Some st \<Rightarrow> W\<lparr>dataManager := Some (updateFormData P st (currentSchema W) fieldName v)\<rparr>)"

definition wf_initializeUnionFormData ::
  "platform \<Rightarrow> workflow \<Rightarrow> string \<Rightarrow> jsval \<Rightarrow> (error + unit) \<times> workflow" where
  "wf_initializeUnionFormData P W fieldName schema =
     (case dataManager W of
        None \<Rightarrow> (Inr (), W)
      | Some st \<Rightarrow>
          (case initializeUnionFormData P st (currentSchema W) fieldName schema of
             (r, st') \<Rightarrow> (r, W\<lparr>dataManager := Some st'\<rparr>)))"

text \<open>
  \<^verbatim>\<open>renderUnionFields\<close>: \<open>renders\<close> tells whether \<^verbatim>\<open>generateUnionSchemaFields\<close> returns
  the HTML of the schema's fields rather than throwing. The whole body is in a
  \<^verbatim>\<open>try\<close> whose \<^verbatim>\<open>catch\<close> only logs, so an exception leaves the state as it is then.
\<close>

definition renderUnionFields ::
  "platform \<Rightarrow> (string \<Rightarrow> jsval \<Rightarrow> obj \<Rightarrow> bool) \<Rightarrow> workflow \<Rightarrow> string \<Rightarrow> string \<Rightarrow> workflow" where
  "renderUnionFields P renders W fieldName selectedValue =
     (case selectedSchema (currentSchema W) (fieldCache W) (schemaCache W)
             fieldName selectedValue of
        None \<Rightarrow> W
      | Some (schema, all) \<Rightarrow>
          if renders fieldName schema all
          then snd (wf_initializeUnionFormData P W fieldName schema)
          else W)"

definition selectUnionOption ::
  "platform \<Rightarrow> (string \<Rightarrow> jsval \<Rightarrow> obj \<Rightarrow> bool) \<Rightarrow> workflow \<Rightarrow> string \<Rightarrow> string \<Rightarrow> workflow" where
  "selectUnionOption P renders W fieldName v =
     renderUnionFields P renders (wf_updateFormData P W fieldName (JStr v)) fieldName v"


text \<open>A run of selections, each a field name and the value of the chosen card.\<close>

definition select_all ::
  "platform \<Rightarrow> (string \<Rightarrow> jsval \<Rightarrow> obj \<Rightarrow> bool) \<Rightarrow> workflow \<Rightarrow> (string \<times> string) list \<Rightarrow> workflow" where
  "select_all P renders W sels = foldl (\<lambda>W' (g, v). selectUnionOption P renders W' g v) W sels"



section \<open>Example data\<close>

text \<open>
  A store with one schema, and a platform whose JSON codec is tabulated on the texts the
  examples use.
\<close>

definition example_items :: "jsval list" where
  "example_items = [JStr ''a'', JStr ''b'', JStr ''c'']"

definition example_tree :: obj where
  "example_tree = [(''stores'', JArr example_items), (''city'', JStr ''Oslo'')]"

definition example_export :: jsval where
  "example_export = export_envelope ''2024-05-01T10:00:00.000Z'' ''bikes'' example_tree"

definition example_text :: string where
  \<open>example_text =
     ''{"timestamp":"2024-05-01T10:00:00.000Z","workflow_name":"bikes","form_data":{"stores":["a","b","c"],"city":"Oslo"}}''\<close>

definition example_platform :: platform where
  "example_platform =
     \<lparr>JSON_parse = (\<lambda>t. if t = example_text then Some example_export
                         else if t = ''null'' then Some JNull else None),
      JSON_stringify = (\<lambda>v n. if v = example_export then example_text else ''{}''),
      has_Storage = True,
      setItem_ok = (\<lambda>k t. True)\<rparr>"

definition example_store :: dm_state where
  "example_store =
     \<lparr>formData = [(''bikes'', example_tree)], autoSave = True,
      storageKey = ''dynamic_workflow_data'', localStorage = []\<rparr>"


definition example_model :: jsval where
  "example_model = JObj [(''type'', JStr ''object'')]"

definition example_doc :: schema_doc where
  "example_doc = \<lparr>schemas = Some [(''RootModel_Store'', example_model)], definitions = None\<rparr>"

definition example_generator :: generator where
  "example_generator = \<lparr>rawSchema = Some example_doc, referenceCache = []\<rparr>"


section \<open>Properties\<close>

lemma formData_saveToStorage [simp]: "formData (saveToStorage P st) = formData st"
  by (simp add: saveToStorage_def Let_def)

lemma obj_get_obj_set [simp]: "obj_get (obj_set ps k v) k' = (if k' = k then v else obj_get ps k')"
  by (simp add: obj_get_def obj_set_def update_conv')

lemma map_of_update_same [simp]: "map_of (AList.update k v ps) k = Some v"
  by (simp add: update_conv')

lemma map_of_update_other [simp]: "k' \<noteq> k \<Longrightarrow> map_of (AList.update k v ps) k' = map_of ps k'"
  by (simp add: update_conv')



lemma splice_in_range:
  "0 \<le> i \<Longrightarrow> i < int (length xs) \<Longrightarrow> splice xs i 1 = take (nat i) xs @ drop (Suc (nat i)) xs"
  by (simp add: splice_def Let_def min_def max_def nat_add_distrib)


lemma getFormDataForSchema_ensure [simp]:
  "getFormDataForSchema (st\<lparr>formData := ensure_schema (formData st) s\<rparr>) s = getFormDataForSchema st s"
  by (simp add: getFormDataForSchema_def ensure_schema_def split: option.splits)

lemma getFormDataForSchema_update [simp]:
  "getFormDataForSchema (st\<lparr>formData := AList.update s t fd\<rparr>) s = t"
  by (simp add: getFormDataForSchema_def)

lemma getFormDataForSchema_save [simp]:
  "getFormDataForSchema (saveToStorage P st) s = getFormDataForSchema st s"
  by (simp add: getFormDataForSchema_def)



subsection \<open>Array items\<close>

text \<open>
  C1. Where the field of a schema holds an array and \<open>0 \<le> i < length\<close>,
  \<^verbatim>\<open>removeArrayItem(schema, field, i)\<close> returns normally and leaves an array one item
  shorter: the items below \<open>i\<close> stay where they were and every item above \<open>i\<close> moves
  down by one position, so the indices have no gap.
\<close>

theorem removeArrayItem_shifts_down:
  assumes "map_of (formData st) s = Some tree"
    and "obj_get tree f = JArr xs"
    and "0 \<le> i" and "i < int (length xs)"
  shows "\<exists>st' ys. removeArrayItem P st s f i = (Inr (), st')
           \<and> obj_get (getFormDataForSchema st' s) f = JArr ys
           \<and> ys = take (nat i) xs @ drop (Suc (nat i)) xs
           \<and> length ys + 1 = length xs
           \<and> (\<forall>j. j < nat i \<longrightarrow> ys ! j = xs ! j)
           \<and> (\<forall>j. nat i \<le> j \<and> j < length ys \<longrightarrow> ys ! j = xs ! (j + 1))"
proof -
  let ?ys = "take (nat i) xs @ drop (Suc (nat i)) xs"
  from assms(3,4) have lt: "nat i < length xs" by simp
  have run: "removeArrayItem P st s f i =
      (Inr (), saveToStorage P (st\<lparr>formData := AList.update s (obj_set tree f (JArr ?ys)) (formData st)\<rparr>))"
    using assms by (simp add: removeArrayItem_def splice_in_range)
  have len: "length ?ys + 1 = length xs" using lt by simp
  have low: "\<forall>j. j < nat i \<longrightarrow> ?ys ! j = xs ! j"
    using lt by (simp add: nth_append)
  have high: "\<forall>j. nat i \<le> j \<and> j < length ?ys \<longrightarrow> ?ys ! j = xs ! (j + 1)"
    using lt by (auto simp: nth_append min_def)
  show ?thesis
    using run len low high by (simp add: getFormDataForSchema_def)
qed

theorem removeArrayItem_shifts_down_witness:
  "map_of (formData example_store) ''bikes'' = Some example_tree
   \<and> obj_get example_tree ''stores'' = JArr example_items
   \<and> (0::int) \<le> 1 \<and> (1::int) < int (length example_items)
   \<and> (\<exists>st' ys. removeArrayItem example_platform example_store ''bikes'' ''stores'' 1 = (Inr (), st')
           \<and> obj_get (getFormDataForSchema st' ''bikes'') ''stores'' = JArr ys
           \<and> ys = [JStr ''a'', JStr ''c''])"
proof -
  have h1: "map_of (formData example_store) ''bikes'' = Some example_tree"
    by (simp add: example_store_def)
  have h2: "obj_get example_tree ''stores'' = JArr example_items"
    by (simp add: example_tree_def obj_get_def)
  have h3: "(1::int) < int (length example_items)"
    by (simp add: example_items_def)
  have tk: "take (nat 1) example_items @ drop (Suc (nat 1)) example_items = [JStr ''a'', JStr ''c'']"
    by (simp add: example_items_def)
  from removeArrayItem_shifts_down [OF h1 h2 _ h3, of example_platform] tk
  show ?thesis using h1 h2 h3 by auto
qed







subsection \<open>Export and import\<close>






subsection \<open>Reference resolution\<close>





text \<open>
  C6. Resolving the same reference twice in succession gives the same result both times,
  found or not, and the second call leaves the generator as the first left it.
\<close>

theorem resolveReference_idempotent:
  "fst (resolveReference (snd (resolveReference g ref)) ref) = fst (resolveReference g ref)
   \<and> snd (resolveReference (snd (resolveReference g ref)) ref) = snd (resolveReference g ref)"
proof (cases "map_of (referenceCache g) ref")
  case (Some cached)
  then show ?thesis by (simp add: resolveReference_def)
next
  case None
  show ?thesis
  proof (cases "rawSchema g")
    case rn: None
    with None show ?thesis by (simp add: resolveReference_def)
  next
    case (Some doc)
    define r where "r =
      (if startsWith ref ''#/$defs/'' then
         findInDefinitions doc (remove_first ''#/$defs/'' ref)
       else if startsWith ref ''#/definitions/'' then
         findInDefinitions doc (remove_first ''#/definitions/'' ref)
       else if startsWith ref ''#/schemas/'' then
         map_get (schemas doc) (remove_first ''#/schemas/'' ref)
       else
         (let refName = strip_path ref
          in js_or (map_get (schemas doc) refName) (findInDefinitions doc refName)))"
    have first: "resolveReference g ref =
        (if truthy r then (Inr r, g\<lparr>referenceCache := AList.update ref r (referenceCache g)\<rparr>)
         else (Inr r, g))"
      using None Some unfolding resolveReference_def r_def by (simp add: Let_def)
    show ?thesis
    proof (cases "truthy r")
      case True
      with first show ?thesis by (simp add: resolveReference_def)
    next
      case False
      with first show ?thesis by simp
    qed
  qed
qed

theorem resolveReference_idempotent_witness:
  "fst (resolveReference (snd (resolveReference example_generator ''#/$defs/Store'')) ''#/$defs/Store'')
     = Inr example_model
   \<and> fst (resolveReference example_generator ''#/$defs/Store'') = Inr example_model"
proof -
  have "fst (resolveReference example_generator ''#/$defs/Store'') = Inr example_model"
    by (simp add: resolveReference_def example_generator_def example_doc_def startsWith_def
        findInDefinitions_def variations_def map_get_def obj_get_def example_model_def Let_def)
  with resolveReference_idempotent [of example_generator "''#/$defs/Store''"]
  show ?thesis by simp
qed




subsection \<open>Schema fetch\<close>




subsection \<open>Union selection\<close>




lemma select_caches [simp]:
  "currentSchema (selectUnionOption P R W g v) = currentSchema W"
  "fieldCache (selectUnionOption P R W g v) = fieldCache W"
  "schemaCache (selectUnionOption P R W g v) = schemaCache W"
  by (auto simp: selectUnionOption_def renderUnionFields_def wf_updateFormData_def
      wf_initializeUnionFormData_def split: option.splits prod.splits)



lemma select_all_caches [simp]:
  "currentSchema (select_all P R W sels) = currentSchema W"
  "fieldCache (select_all P R W sels) = fieldCache W"
  "schemaCache (select_all P R W sels) = schemaCache W"
  by (induction sels rule: rev_induct) (auto simp: select_all_def split: prod.splits)





end
